theory Spec2Isabelle
  imports Main "HOL-Library.Word" "HOL-Library.Sublist"
begin

unbundle bit_operations_syntax

section \<open>JavaScript values\<close>

type_synonym bytes = "8 word list"

text \<open>The values that an activation record read by \<open>fetchSlice\<close> can hold in a field.\<close>

datatype jsval = JUndefined | JNull | JBool bool | JNumber int | JString string

text \<open>What \<open>!v\<close> negates: \<open>undefined\<close>, \<open>null\<close>, \<open>false\<close>, \<open>0\<close> and the empty string are falsy.\<close>

fun truthy :: "jsval \<Rightarrow> bool" where
  "truthy JUndefined = False"
| "truthy JNull = False"
| "truthy (JBool b) = b"
| "truthy (JNumber n) = (n \<noteq> 0)"
| "truthy (JString s) = (s \<noteq> [])"

text \<open>
  \<open>x >>> n\<close>: the operand is converted to an unsigned 32-bit integer, then shifted right
  with zero fill by \<open>n mod 32\<close> bits.
\<close>

definition js_ushr :: "int \<Rightarrow> nat \<Rightarrow> int" where
  "js_ushr x n = uint (drop_bit (n mod 32) (word_of_int x :: 32 word))"

text \<open>\<open>x >> n\<close>, the sign-propagating shift, which line 122 does not use.\<close>

definition js_sshr :: "int \<Rightarrow> nat \<Rightarrow> int" where
  "js_sshr x n = sint (signed_drop_bit (n mod 32) (word_of_int x :: 32 word))"

subsection \<open>\<open>parseInt\<close>\<close>

text \<open>
  \<open>parseInt(v)\<close> with no radix: the argument is converted to a string, leading white space
  is dropped, then an optional sign, then an optional \<open>0x\<close> prefix (which selects radix 16),
  and the longest run of digits is read. No digit at all gives \<open>NaN\<close>, here \<open>None\<close>.
  The result is an integer of the model; the rounding of a double beyond \<open>2^53\<close> is not
  modelled.
\<close>

definition js_ToString :: "string option \<Rightarrow> string" where
  "js_ToString v = (case v of None \<Rightarrow> ''undefined'' | Some s \<Rightarrow> s)"

definition is_white_space :: "char \<Rightarrow> bool" where
  "is_white_space c = (of_char c \<in> {9, 10, 11, 12, 13, 32 :: nat})"

definition digit_value :: "char \<Rightarrow> nat" where
  "digit_value c =
     (let k = (of_char c :: nat) in
      if 48 \<le> k \<and> k \<le> 57 then k - 48
      else if 97 \<le> k \<and> k \<le> 122 then k - 87
      else if 65 \<le> k \<and> k \<le> 90 then k - 55
      else 36)"

definition is_digit :: "nat \<Rightarrow> char \<Rightarrow> bool" where
  "is_digit radix c = (digit_value c < radix)"

definition strip_sign :: "string \<Rightarrow> int \<times> string" where
  "strip_sign s =
     (case s of
        [] \<Rightarrow> (1, [])
      | c # r \<Rightarrow> if c = CHR ''-'' then (- 1, r) else if c = CHR ''+'' then (1, r) else (1, s))"

definition strip_prefix :: "string \<Rightarrow> nat \<times> string" where
  "strip_prefix s =
     (if take 2 s = ''0x'' \<or> take 2 s = ''0X'' then (16, drop 2 s) else (10, s))"

definition digits_value :: "nat \<Rightarrow> string \<Rightarrow> nat" where
  "digits_value radix ds = foldl (\<lambda>acc c. acc * radix + digit_value c) 0 ds"

definition parseInt :: "string option \<Rightarrow> int option" where
  "parseInt v =
     (let (sign, s) = strip_sign (dropWhile is_white_space (js_ToString v));
          (radix, t) = strip_prefix s;
          ds = takeWhile (is_digit radix) t
      in if ds = [] then None else Some (sign * int (digits_value radix ds)))"

section \<open>The process\<close>

record process =
  platform :: string
  env :: "string \<rightharpoonup> string"
  cwd :: string

text \<open>Line 29: \<open>process.env.TEMP\<close> may be undefined on \<open>win32\<close>.\<close>

definition TEMP :: "process \<Rightarrow> string option" where
  "TEMP p = (if platform p = ''win32'' then env p ''TEMP'' else Some ''/tmp'')"

text \<open>Lines 33-34: \<open>a || b\<close> is \<open>b\<close> when \<open>a\<close> is \<open>NaN\<close> or zero.\<close>

definition MAX_SLICE_UPLOAD_SIZE :: "process \<Rightarrow> int" where
  "MAX_SLICE_UPLOAD_SIZE p =
     (case parseInt (env p ''MAX_SLICE_UPLOAD_SIZE'') of
        None \<Rightarrow> 64 * 1024 * 1024
      | Some n \<Rightarrow> if n = 0 then 64 * 1024 * 1024 else n)"

section \<open>Node's \<open>path\<close> module on a POSIX platform\<close>

text \<open>\<open>s.split('/')\<close>: the pieces between separators, empty pieces included.\<close>

fun split_path :: "string \<Rightarrow> string list" where
  "split_path [] = [[]]"
| "split_path (c # cs) =
     (if c = CHR ''/'' then [] # split_path cs
      else (case split_path cs of [] \<Rightarrow> [[c]] | seg # segs \<Rightarrow> (c # seg) # segs))"

text \<open>\<open>segs.join('/')\<close>.\<close>

fun join_path :: "string list \<Rightarrow> string" where
  "join_path [] = []"
| "join_path [seg] = seg"
| "join_path (seg # segs) = seg @ ''/'' @ join_path segs"

text \<open>
  \<open>normalizeString\<close> walks the segments of a path: an empty segment and \<open>.\<close> are dropped,
  \<open>..\<close> removes the segment before it unless there is none or it is itself \<open>..\<close>; then it
  is kept when the path is relative (\<open>allowAboveRoot\<close>) and dropped at the root.
\<close>

definition normalize_step :: "bool \<Rightarrow> string list \<Rightarrow> string \<Rightarrow> string list" where
  "normalize_step allowAboveRoot res seg =
     (if seg = [] \<or> seg = ''.'' then res
      else if seg = ''..'' then
        (if res \<noteq> [] \<and> last res \<noteq> ''..'' then butlast res
         else if allowAboveRoot then res @ [''..''] else res)
      else res @ [seg])"

definition normalize_segments :: "bool \<Rightarrow> string \<Rightarrow> string list" where
  "normalize_segments allowAboveRoot path =
     foldl (normalize_step allowAboveRoot) [] (split_path path)"

definition isAbsolute :: "string \<Rightarrow> bool" where
  "isAbsolute path = (path \<noteq> [] \<and> hd path = CHR ''/'')"

definition path_normalize :: "string \<Rightarrow> string" where
  "path_normalize path =
     (if path = [] then ''.''
      else
        let trailingSeparator = (last path = CHR ''/'');
            res = join_path (normalize_segments (\<not> isAbsolute path) path)
        in if res = [] then
             (if isAbsolute path then ''/'' else if trailingSeparator then ''./'' else ''.'')
           else
             (if isAbsolute path then ''/'' else []) @ res @
             (if trailingSeparator then ''/'' else []))"

definition path_join :: "string list \<Rightarrow> string" where
  "path_join args =
     (let parts = filter (\<lambda>arg. arg \<noteq> []) args
      in if parts = [] then ''.'' else path_normalize (join_path parts))"

text \<open>
  \<open>path.dirname\<close>: trailing separators are skipped from the right, then the text before
  the last separator is returned; index 0 is never inspected by the scan.
\<close>

definition path_dirname :: "string \<Rightarrow> string" where
  "path_dirname path =
     (case path of
        [] \<Rightarrow> ''.''
      | c # cs \<Rightarrow>
          (let hasRoot = (c = CHR ''/'');
               r = dropWhile (\<lambda>x. x \<noteq> CHR ''/'')
                     (dropWhile (\<lambda>x. x = CHR ''/'') (rev cs))
           in case r of
                [] \<Rightarrow> if hasRoot then ''/'' else ''.''
              | _ # front \<Rightarrow>
                  if hasRoot \<and> front = [] then ''//'' else c # rev front))"

text \<open>
  \<open>path.resolve\<close> of one path against the working directory, as the list of segments of
  the absolute path it returns.
\<close>

definition resolve_segments :: "string \<Rightarrow> string \<Rightarrow> string list" where
  "resolve_segments wd path =
     (if isAbsolute path then normalize_segments False path
      else normalize_segments False (wd @ ''/'' @ path))"

definition path_resolve :: "string \<Rightarrow> string \<Rightarrow> string" where
  "path_resolve wd path = ''/'' @ join_path (resolve_segments wd path)"

text \<open>
  \<open>path.relative(from, to)\<close>: both are resolved, their common leading segments are
  dropped, and each remaining segment of \<open>from\<close> becomes one \<open>..\<close>.
\<close>

fun common_length :: "string list \<Rightarrow> string list \<Rightarrow> nat" where
  "common_length (x # xs) (y # ys) = (if x = y then Suc (common_length xs ys) else 0)"
| "common_length _ _ = 0"

definition path_relative :: "string \<Rightarrow> string \<Rightarrow> string \<Rightarrow> string" where
  "path_relative wd from to =
     (if from = to then []
      else
        let f = resolve_segments wd from;
            t = resolve_segments wd to;
            k = common_length f t
        in if f = t then []
           else join_path (replicate (length f - k) ''..'' @ drop k t))"

section \<open>The file system\<close>

text \<open>
  A file system maps the segments of an absolute path to what is there. The root always
  exists. A file keeps the mode it was created with; the umask of the process is not
  modelled, and \<open>..\<close> is resolved on the text of a path.
\<close>

datatype node = Dir | File bytes int

type_synonym fs = "string list \<rightharpoonup> node"

definition node_at :: "fs \<Rightarrow> string list \<Rightarrow> node option" where
  "node_at f k = (if k = [] then Some Dir else f k)"

definition is_dir :: "fs \<Rightarrow> string list \<Rightarrow> bool" where
  "is_dir f k = (node_at f k = Some Dir)"

definition is_file :: "fs \<Rightarrow> string list \<Rightarrow> bool" where
  "is_file f k = (case node_at f k of Some (File _ _) \<Rightarrow> True | _ \<Rightarrow> False)"

text \<open>\<open>rimraf\<close>: the path and everything under it are gone.\<close>

definition remove_tree :: "fs \<Rightarrow> string list \<Rightarrow> fs" where
  "remove_tree f k = (\<lambda>q. if prefix k q then None else f q)"

text \<open>
  \<open>mkdir\<close> with \<open>recursive: true\<close>: every missing directory on the way is created; a file
  on the way, or at the path itself, is an error.
\<close>

definition make_dirs :: "fs \<Rightarrow> string list \<Rightarrow> string + fs" where
  "make_dirs f k =
     (if is_file f k then Inl ''EEXIST''
      else if \<exists>q \<in> set (prefixes k). is_file f q then Inl ''ENOTDIR''
      else Inr (\<lambda>q. if q \<noteq> [] \<and> prefix q k then Some Dir else f q))"

text \<open>
  Writing a file: the parent must be a directory; an existing file gets the new content
  and keeps its mode; a new file gets the mode that was passed.
\<close>

definition write_file :: "fs \<Rightarrow> string list \<Rightarrow> bytes \<Rightarrow> int \<Rightarrow> string + fs" where
  "write_file f k content mode =
     (if k = [] then Inl ''EISDIR''
      else case node_at f (butlast k) of
        None \<Rightarrow> Inl ''ENOENT''
      | Some (File _ _) \<Rightarrow> Inl ''ENOTDIR''
      | Some Dir \<Rightarrow>
          (case f k of
             None \<Rightarrow> Inr (f(k \<mapsto> File content mode))
           | Some Dir \<Rightarrow> Inl ''EISDIR''
           | Some (File _ m) \<Rightarrow> Inr (f(k \<mapsto> File content m))))"

section \<open>Collaborators of the slice reader\<close>

datatype error =
    Error string
  | TypeError string
  | Rejected string
  | SystemError string

text \<open>
  An \<open>async\<close> function returns, throws, or never settles (\<open>Pending\<close>: it awaits a promise
  that nothing resolves).
\<close>

datatype 'a outcome = Returned 'a | Threw error | Pending

record credentials_ow =
  apihost :: string
  api_key :: string

record credentials =
  ow :: credentials_ow
  namespace :: string

record ow_client =
  client_apihost :: string
  client_api_key :: string
  client_namespace :: string

record invoked =
  activationId :: string

record activation_result =
  url :: jsval

record activation_response =
  success :: jsval
  result :: "activation_result option"

record activation =
  response :: "activation_response option"

datatype stream_end = Ended | Errored string

record readable =
  chunks :: "bytes list"
  ending :: stream_end

record axios_response =
  data :: readable

record writable =
  highWaterMark :: int
  buffer :: bytes

record entry =
  entryName :: string
  isDirectory :: bool
  attr :: int
  getData :: bytes

record DeployStructure =
  filePath :: string

text \<open>
  What the outside answers during one call of \<open>fetchSlice\<close> or \<open>deleteSlice\<close>: each
  remote call is made at most once, so one answer for each is all a call can see.
  \<open>waitForActivation\<close>, \<open>getCredentialsFromEnvironment\<close> and \<open>BUILDER_NAMESPACE\<close> are
  imported by the source and taken as given here.
\<close>

record world =
  proc :: process
  BUILDER_NAMESPACE :: string
  getCredentialsFromEnvironment :: credentials
  invoke_reply :: "string + invoked"
  activation_reply :: "activation option"
  axios_reply :: "string + axios_response"
  adm_zip :: "bytes \<Rightarrow> string + entry list"

text \<open>The calls that leave the function, in the order they are made.\<close>

datatype event =
    Invoke ow_client string string
  | WaitForActivation string ow_client nat
  | AxiosGet jsval
  | ExistsSync string
  | RimrafSync string
  | MkdirSync string
  | NewWritableStream int
  | NewZip bytes
  | WriteFileSync string bytes int

record state =
  files :: fs
  calls :: "event list"

type_synonym 'a prog = "state \<Rightarrow> 'a outcome \<times> state"

definition ret :: "'a \<Rightarrow> 'a prog" where
  "ret x s = (Returned x, s)"

definition throw :: "error \<Rightarrow> 'a prog" where
  "throw e s = (Threw e, s)"

text \<open>\<open>await m\<close>, then the rest: a throw or a promise that never settles ends the function.\<close>

definition and_then :: "'a prog \<Rightarrow> ('a \<Rightarrow> 'b prog) \<Rightarrow> 'b prog" where
  "and_then m k s =
     (case m s of
        (Returned x, s') \<Rightarrow> k x s'
      | (Threw e, s') \<Rightarrow> (Threw e, s')
      | (Pending, s') \<Rightarrow> (Pending, s'))"

definition call :: "event \<Rightarrow> state \<Rightarrow> state" where
  "call ev s = s\<lparr>calls := calls s @ [ev]\<rparr>"

definition openwhisk :: "ow_client \<Rightarrow> ow_client" where
  "openwhisk options = options"

definition actions_invoke :: "world \<Rightarrow> ow_client \<Rightarrow> string \<Rightarrow> string \<Rightarrow> invoked prog" where
  "actions_invoke w client name params_name s =
     (case invoke_reply w of
        Inl msg \<Rightarrow> (Threw (Rejected msg), call (Invoke client name params_name) s)
      | Inr i \<Rightarrow> (Returned i, call (Invoke client name params_name) s))"

definition waitForActivation ::
  "world \<Rightarrow> string \<Rightarrow> ow_client \<Rightarrow> nat \<Rightarrow> activation option prog" where
  "waitForActivation w aid client timeout s =
     (Returned (activation_reply w), call (WaitForActivation aid client timeout) s)"

definition axios_get :: "world \<Rightarrow> jsval \<Rightarrow> axios_response prog" where
  "axios_get w u s =
     (case axios_reply w of
        Inl msg \<Rightarrow> (Threw (Rejected msg), call (AxiosGet u) s)
      | Inr r \<Rightarrow> (Returned r, call (AxiosGet u) s))"

definition new_WritableStream :: "int \<Rightarrow> writable prog" where
  "new_WritableStream hwm s =
     (Returned \<lparr>highWaterMark = hwm, buffer = []\<rparr>, call (NewWritableStream hwm) s)"

definition new_Zip :: "world \<Rightarrow> bytes \<Rightarrow> entry list prog" where
  "new_Zip w buf s =
     (case adm_zip w buf of
        Inl msg \<Rightarrow> (Threw (Rejected msg), call (NewZip buf) s)
      | Inr es \<Rightarrow> (Returned es, call (NewZip buf) s))"

definition fs_key :: "process \<Rightarrow> string \<Rightarrow> string list" where
  "fs_key p path = resolve_segments (cwd p) path"

definition existsSync :: "process \<Rightarrow> string \<Rightarrow> bool prog" where
  "existsSync p path s =
     (Returned (node_at (files s) (fs_key p path) \<noteq> None), call (ExistsSync path) s)"

definition rimraf_sync :: "process \<Rightarrow> string \<Rightarrow> unit prog" where
  "rimraf_sync p path s =
     (Returned (), call (RimrafSync path) (s\<lparr>files := remove_tree (files s) (fs_key p path)\<rparr>))"

definition mkdirSync :: "process \<Rightarrow> string \<Rightarrow> unit prog" where
  "mkdirSync p path s =
     (case make_dirs (files s) (fs_key p path) of
        Inl code \<Rightarrow> (Threw (SystemError code), call (MkdirSync path) s)
      | Inr f \<Rightarrow> (Returned (), call (MkdirSync path) (s\<lparr>files := f\<rparr>)))"

text \<open>A path that ends in a separator names a directory and cannot be opened for writing.\<close>

definition writeFileSync :: "process \<Rightarrow> string \<Rightarrow> bytes \<Rightarrow> int \<Rightarrow> unit prog" where
  "writeFileSync p path content mode s =
     (if path \<noteq> [] \<and> last path = CHR ''/'' then
        (Threw (SystemError ''EISDIR''), call (WriteFileSync path content mode) s)
      else case write_file (files s) (fs_key p path) content mode of
        Inl code \<Rightarrow> (Threw (SystemError code), call (WriteFileSync path content mode) s)
      | Inr f \<Rightarrow> (Returned (), call (WriteFileSync path content mode) (s\<lparr>files := f\<rparr>)))"

section \<open>slice-reader.ts\<close>

text \<open>Lines 44-46. \<open>path.join\<close> throws a \<open>TypeError\<close> on an argument that is not a string.\<close>

definition cacheArea :: "process \<Rightarrow> string prog" where
  "cacheArea p =
     (case TEMP p of
        None \<Rightarrow> throw (TypeError ''The path argument must be of type string'')
      | Some t \<Rightarrow> ret (path_join [t, ''slices'']))"

text \<open>
  Lines 49-60. The promise is resolved by \<open>close\<close> or \<open>finish\<close> of the output and by
  nothing else. \<open>input.pipe(output)\<close> writes what the input delivers and ends the output
  when the input ends; when the input fails the output is left open.
\<close>

definition pipe :: "readable \<Rightarrow> writable \<Rightarrow> writable prog" where
  "pipe input output s =
     (let output' = output\<lparr>buffer := buffer output @ concat (chunks input)\<rparr>
      in case ending input of
           Ended \<Rightarrow> (Returned output', s)
         | Errored msg \<Rightarrow> (Pending, s))"

text \<open>Lines 116-125, the body of the loop over the entries that are not directories.\<close>

fun store_entries :: "process \<Rightarrow> string \<Rightarrow> entry list \<Rightarrow> unit prog" where
  "store_entries p cache [] = ret ()"
| "store_entries p cache (entry # rest) =
     (let target = path_join [cache, entryName entry];
          parent = path_dirname target
      in and_then (existsSync p parent) (\<lambda>found.
         and_then (if \<not> found then mkdirSync p parent else ret ()) (\<lambda>_.
         let mode = js_ushr (attr entry) 16
         in and_then (writeFileSync p target (getData entry) mode) (\<lambda>_.
            store_entries p cache rest))))"

definition quoted :: "string \<Rightarrow> string" where
  "quoted s = [CHR 0x27] @ s @ [CHR 0x27]"

text \<open>Lines 63-127. The state a call starts from has the given files and no call made.\<close>

definition fetchSlice_prog :: "world \<Rightarrow> string \<Rightarrow> string prog" where
  "fetchSlice_prog w sliceName =
     (let GET_DOWNLOAD_URL = ''/'' @ BUILDER_NAMESPACE w @ ''/builder/getDownloadUrl'';
          credentials = getCredentialsFromEnvironment w;
          owClient = openwhisk \<lparr>client_apihost = apihost (ow credentials),
                                client_api_key = api_key (ow credentials),
                                client_namespace = namespace credentials\<rparr>
      in and_then (actions_invoke w owClient GET_DOWNLOAD_URL sliceName) (\<lambda>invoked.
         and_then (waitForActivation w (activationId invoked) owClient 60) (\<lambda>activation.
         case activation of
           None \<Rightarrow> throw (Error (''Timed out fetching assets url for '' @ quoted sliceName))
         | Some activation \<Rightarrow>
             (let activationResponse = response activation;
                  downloadUrl =
                    (case response activation of
                       None \<Rightarrow> JUndefined
                     | Some r \<Rightarrow> (case result r of None \<Rightarrow> JUndefined | Some res \<Rightarrow> url res))
              in if activationResponse = None
                    \<or> \<not> truthy (case activationResponse of None \<Rightarrow> JUndefined | Some r \<Rightarrow> success r)
                    \<or> \<not> truthy downloadUrl
                 then throw (Error (''Failed to fetch assets url for '' @ quoted sliceName))
                 else
                   and_then (axios_get w downloadUrl) (\<lambda>response.
                   and_then (cacheArea (proc w)) (\<lambda>area.
                   let cache = path_join [area, sliceName]
                   in and_then (existsSync (proc w) cache) (\<lambda>found.
                      and_then (if found then rimraf_sync (proc w) cache else ret ()) (\<lambda>_.
                      and_then (mkdirSync (proc w) cache) (\<lambda>_.
                      and_then (new_WritableStream (MAX_SLICE_UPLOAD_SIZE (proc w))) (\<lambda>destination.
                      and_then (pipe (data response) destination) (\<lambda>destination.
                      let data = buffer destination
                      in and_then (new_Zip w data) (\<lambda>zip.
                         and_then (store_entries (proc w) cache
                                     (filter (\<lambda>entry. \<not> isDirectory entry) zip)) (\<lambda>_.
                         ret cache)))))))))))))"

definition fetchSlice :: "world \<Rightarrow> string \<Rightarrow> fs \<Rightarrow> string outcome \<times> state" where
  "fetchSlice w sliceName f = fetchSlice_prog w sliceName \<lparr>files = f, calls = []\<rparr>"

text \<open>Lines 130-154.\<close>

definition deleteSlice_prog :: "world \<Rightarrow> DeployStructure \<Rightarrow> unit prog" where
  "deleteSlice_prog w project =
     (let DELETE_ASSETS_URL = ''/'' @ BUILDER_NAMESPACE w @ ''/builder/deleteBuildAssets''
      in and_then (cacheArea (proc w)) (\<lambda>area.
         let sliceName = path_relative (cwd (proc w)) area (filePath project);
             credentials = getCredentialsFromEnvironment w;
             owClient = openwhisk \<lparr>client_apihost = apihost (ow credentials),
                                   client_api_key = api_key (ow credentials),
                                   client_namespace = namespace credentials\<rparr>
         in and_then (actions_invoke w owClient DELETE_ASSETS_URL sliceName) (\<lambda>invoked.
            and_then (waitForActivation w (activationId invoked) owClient 60) (\<lambda>_.
            ret ()))))"

definition deleteSlice :: "world \<Rightarrow> DeployStructure \<Rightarrow> fs \<Rightarrow> unit outcome \<times> state" where
  "deleteSlice w project f = deleteSlice_prog w project \<lparr>files = f, calls = []\<rparr>"

section \<open>Notions used in the statements\<close>

text \<open>
  An activation is usable when it has a response that reports success and carries a
  download URL that is not empty.
\<close>

definition usable :: "activation \<Rightarrow> bool" where
  "usable a =
     (case response a of
        None \<Rightarrow> False
      | Some r \<Rightarrow>
          truthy (success r) \<and> (case result r of None \<Rightarrow> False | Some res \<Rightarrow> truthy (url res)))"

text \<open>The calls to the remote invocation client; every other call is a local one.\<close>

fun remote_call :: "event \<Rightarrow> bool" where
  "remote_call (Invoke _ _ _) = True"
| "remote_call (WaitForActivation _ _ _) = True"
| "remote_call _ = False"

text \<open>The calls that touch the file system.\<close>

fun fs_call :: "event \<Rightarrow> bool" where
  "fs_call (ExistsSync _) = True"
| "fs_call (RimrafSync _) = True"
| "fs_call (MkdirSync _) = True"
| "fs_call (WriteFileSync _ _ _) = True"
| "fs_call _ = False"

text \<open>The files written, in order: path, content and mode of each \<open>writeFileSync\<close>.\<close>

fun writes :: "event list \<Rightarrow> (string \<times> bytes \<times> int) list" where
  "writes [] = []"
| "writes (WriteFileSync path content mode # evs) = (path, content, mode) # writes evs"
| "writes (_ # evs) = writes evs"

fun message :: "error \<Rightarrow> string" where
  "message (Error m) = m"
| "message (TypeError m) = m"
| "message (Rejected m) = m"
| "message (SystemError m) = m"

text \<open>\<open>text.includes(s)\<close>: \<open>s\<close> occurs in \<open>text\<close>.\<close>

fun occurs_in :: "string \<Rightarrow> string \<Rightarrow> bool" where
  "occurs_in s [] = (s = [])"
| "occurs_in s (c # cs) = (prefix s (c # cs) \<or> occurs_in s cs)"

text \<open>A file system is a tree: whatever exists lies in a directory.\<close>

definition wf_fs :: "fs \<Rightarrow> bool" where
  "wf_fs f = (\<forall>k. f k \<noteq> None \<longrightarrow> is_dir f (butlast k))"

text \<open>\<open>q\<close> lies under the directory \<open>k\<close>, and is not \<open>k\<close> itself.\<close>

definition below :: "string list \<Rightarrow> string list \<Rightarrow> bool" where
  "below k q = strict_prefix k q"

text \<open>
  A name that \<open>path.join\<close> leaves as it is: segments separated by single separators, none
  of them empty, \<open>.\<close> or \<open>..\<close>.
\<close>

definition normal_name :: "string \<Rightarrow> bool" where
  "normal_name name = (\<forall>seg \<in> set (split_path name). seg \<noteq> [] \<and> seg \<noteq> ''.'' \<and> seg \<noteq> ''..'')"


definition emits :: "(event \<Rightarrow> bool) \<Rightarrow> 'a prog \<Rightarrow> bool" where
  "emits P m = (\<forall>s. \<exists>evs. calls (snd (m s)) = calls s @ evs \<and> (\<forall>ev \<in> set evs. P ev))"

section \<open>Example inputs\<close>

definition posix :: process where
  "posix = \<lparr>platform = ''linux'', env = Map.empty, cwd = ''/home/deployer''\<rparr>"

definition example_entries :: "entry list" where
  "example_entries =
     [\<lparr>entryName = ''index.js'', isDirectory = False, attr = 0x81A40000, getData = [1, 2, 3]\<rparr>,
      \<lparr>entryName = ''lib/'', isDirectory = True, attr = 0x41ED0010, getData = []\<rparr>,
      \<lparr>entryName = ''lib/util.js'', isDirectory = False, attr = 0x81ED0000, getData = [4, 5]\<rparr>]"

definition good_activation :: activation where
  "good_activation =
     \<lparr>response = Some \<lparr>success = JBool True,
                        result = Some \<lparr>url = JString ''https://bucket.example/myslice.zip''\<rparr>\<rparr>\<rparr>"

definition good_world :: world where
  "good_world =
     \<lparr>proc = posix,
      BUILDER_NAMESPACE = ''nimbella'',
      getCredentialsFromEnvironment =
        \<lparr>ow = \<lparr>apihost = ''https://api.example'', api_key = ''key''\<rparr>, namespace = ''ns''\<rparr>,
      invoke_reply = Inr \<lparr>activationId = ''a1''\<rparr>,
      activation_reply = Some good_activation,
      axios_reply = Inr \<lparr>data = \<lparr>chunks = [[80, 75], [3, 4]], ending = Ended\<rparr>\<rparr>,
      adm_zip = (\<lambda>buf. Inr example_entries)\<rparr>"

definition timeout_world :: world where
  "timeout_world = good_world\<lparr>activation_reply := None\<rparr>"

definition unusable_world :: world where
  "unusable_world =
     good_world\<lparr>activation_reply :=
       Some \<lparr>response = Some \<lparr>success = JBool False, result = Some \<lparr>url = JUndefined\<rparr>\<rparr>\<rparr>\<rparr>"


section \<open>The unsigned shift\<close>

lemma js_ushr_16: "js_ushr a 16 = (a mod 2 ^ 32) div 2 ^ 16"
proof -
  have "uint (drop_bit 16 (word_of_int a :: 32 word)) =
        drop_bit 16 (take_bit 32 (uint (word_of_int a :: 32 word)))"
    by (simp only: unsigned_drop_bit_eq) simp
  also have "\<dots> = drop_bit 16 (take_bit 32 a)"
    by (simp add: uint_word_of_int_eq)
  also have "\<dots> = (a mod 2 ^ 32) div 2 ^ 16"
    by (simp only: drop_bit_eq_div take_bit_eq_mod)
  finally show ?thesis by (simp add: js_ushr_def)
qed


text \<open>The sign-propagating shift would give a negative mode for a Unix regular file.\<close>

lemma signed_shift_negative: "js_sshr 0x81A40000 16 = - 32348 \<and> js_ushr 0x81A40000 16 = 33188"
  by (simp add: js_sshr_def js_ushr_16)

section \<open>The calls a program makes\<close>

lemma emits_ret: "emits P (ret x)"
  by (simp add: emits_def ret_def)

lemma emits_throw: "emits P (throw e)"
  by (simp add: emits_def throw_def)

lemma emits_and_then:
  assumes m: "emits P m" and k: "\<And>x. emits P (k x)"
  shows "emits P (and_then m k)"
  unfolding emits_def
proof
  fix s
  obtain r s1 where ms: "m s = (r, s1)" by (cases "m s")
  from m obtain evs where evs: "calls s1 = calls s @ evs" "\<forall>ev \<in> set evs. P ev"
    unfolding emits_def using ms by (metis snd_conv)
  show "\<exists>evs. calls (snd (and_then m k s)) = calls s @ evs \<and> (\<forall>ev \<in> set evs. P ev)"
  proof (cases r)
    case (Returned x)
    from k [of x] obtain evs' where
      evs': "calls (snd (k x s1)) = calls s1 @ evs'" "\<forall>ev \<in> set evs'. P ev"
      unfolding emits_def by blast
    have "calls (snd (and_then m k s)) = calls s @ (evs @ evs')"
      using ms Returned evs evs' by (simp add: and_then_def)
    moreover have "\<forall>ev \<in> set (evs @ evs'). P ev" using evs evs' by auto
    ultimately show ?thesis by blast
  next
    case (Threw e)
    then show ?thesis using ms evs by (auto simp: and_then_def)
  next
    case Pending
    then show ?thesis using ms evs by (auto simp: and_then_def)
  qed
qed

lemma emits_if: "emits P a \<Longrightarrow> emits P b \<Longrightarrow> emits P (if c then a else b)"
  by simp



lemma emits_axios_get: "P (AxiosGet u) \<Longrightarrow> emits P (axios_get w u)"
  by (simp add: emits_def axios_get_def call_def split: sum.split)

lemma emits_cacheArea: "emits P (cacheArea p)"
  by (simp add: cacheArea_def emits_ret emits_throw split: option.split)

lemma emits_existsSync: "P (ExistsSync path) \<Longrightarrow> emits P (existsSync p path)"
  by (simp add: emits_def existsSync_def call_def)

lemma emits_rimraf_sync: "P (RimrafSync path) \<Longrightarrow> emits P (rimraf_sync p path)"
  by (simp add: emits_def rimraf_sync_def call_def)

lemma emits_mkdirSync: "P (MkdirSync path) \<Longrightarrow> emits P (mkdirSync p path)"
  by (simp add: emits_def mkdirSync_def call_def split: sum.split)

lemma emits_writeFileSync:
  "P (WriteFileSync path c m) \<Longrightarrow> emits P (writeFileSync p path c m)"
  by (auto simp add: emits_def writeFileSync_def call_def split: sum.split)

lemma emits_new_WritableStream: "P (NewWritableStream h) \<Longrightarrow> emits P (new_WritableStream h)"
  by (simp add: emits_def new_WritableStream_def call_def)

lemma emits_pipe: "emits P (pipe i out)"
  by (simp add: emits_def pipe_def Let_def split: stream_end.split)

lemma emits_new_Zip: "P (NewZip b) \<Longrightarrow> emits P (new_Zip w b)"
  by (simp add: emits_def new_Zip_def call_def split: sum.split)

lemma emits_store_entries:
  assumes "\<And>path. P (ExistsSync path)" and "\<And>path. P (MkdirSync path)"
    and "\<And>e. e \<in> set es \<Longrightarrow>
           P (WriteFileSync (path_join [cache, entryName e]) (getData e) (js_ushr (attr e) 16))"
  shows "emits P (store_entries p cache es)"
  using assms(3)
proof (induction es)
  case Nil
  show ?case by (simp add: emits_ret)
next
  case (Cons e es)
  show ?case
    by (simp add: Let_def del: store_entries.simps(2) add: store_entries.simps(2) [abs_def])
       (intro emits_and_then emits_existsSync emits_if emits_mkdirSync emits_ret
         emits_writeFileSync assms(1,2) Cons.prems Cons.IH, simp_all)
qed

lemmas emits_rules = emits_and_then emits_throw emits_ret emits_axios_get emits_cacheArea
  emits_existsSync emits_rimraf_sync emits_mkdirSync emits_new_WritableStream emits_pipe
  emits_new_Zip emits_store_entries



lemma and_then_keeps_calls:
  assumes "\<And>x. emits (\<lambda>_. True) (k x)" and "ev \<in> set (calls (snd (m s)))"
  shows "ev \<in> set (calls (snd (and_then m k s)))"
proof (cases "m s")
  case (Pair r s1)
  show ?thesis
  proof (cases r)
    case (Returned x)
    from assms(1) [of x] obtain evs where "calls (snd (k x s1)) = calls s1 @ evs"
      unfolding emits_def by blast
    then show ?thesis using Pair Returned assms(2) by (simp add: and_then_def)
  qed (use Pair assms(2) in \<open>simp_all add: and_then_def\<close>)
qed

lemmas remote_defs = ret_def throw_def and_then_def call_def actions_invoke_def
  waitForActivation_def openwhisk_def quoted_def

section \<open>The mode of a stored file\<close>



section \<open>The size ceiling\<close>




section \<open>Failures before the download\<close>

lemma fetchSlice_timed_out:
  assumes "invoke_reply w = Inr iv" and "activation_reply w = None"
  shows "fetchSlice w sliceName f =
           (Threw (Error (''Timed out fetching assets url for '' @ quoted sliceName)),
            \<lparr>files = f,
             calls = [Invoke \<lparr>client_apihost = apihost (ow (getCredentialsFromEnvironment w)),
                               client_api_key = api_key (ow (getCredentialsFromEnvironment w)),
                               client_namespace = namespace (getCredentialsFromEnvironment w)\<rparr>
                        (''/'' @ BUILDER_NAMESPACE w @ ''/builder/getDownloadUrl'') sliceName,
                      WaitForActivation (activationId iv)
                        \<lparr>client_apihost = apihost (ow (getCredentialsFromEnvironment w)),
                          client_api_key = api_key (ow (getCredentialsFromEnvironment w)),
                          client_namespace = namespace (getCredentialsFromEnvironment w)\<rparr> 60]\<rparr>)"
  using assms
  by (simp add: fetchSlice_def fetchSlice_prog_def ret_def throw_def and_then_def call_def
      actions_invoke_def waitForActivation_def openwhisk_def Let_def)

lemma fetchSlice_not_usable:
  assumes "invoke_reply w = Inr iv" and "activation_reply w = Some a" and "\<not> usable a"
  shows "fetchSlice w sliceName f =
           (Threw (Error (''Failed to fetch assets url for '' @ quoted sliceName)),
            \<lparr>files = f,
             calls = [Invoke \<lparr>client_apihost = apihost (ow (getCredentialsFromEnvironment w)),
                               client_api_key = api_key (ow (getCredentialsFromEnvironment w)),
                               client_namespace = namespace (getCredentialsFromEnvironment w)\<rparr>
                        (''/'' @ BUILDER_NAMESPACE w @ ''/builder/getDownloadUrl'') sliceName,
                      WaitForActivation (activationId iv)
                        \<lparr>client_apihost = apihost (ow (getCredentialsFromEnvironment w)),
                          client_api_key = api_key (ow (getCredentialsFromEnvironment w)),
                          client_namespace = namespace (getCredentialsFromEnvironment w)\<rparr> 60]\<rparr>)"
  using assms
  by (auto simp add: fetchSlice_def fetchSlice_prog_def ret_def throw_def and_then_def call_def
      actions_invoke_def waitForActivation_def openwhisk_def Let_def usable_def
      split: option.splits)

text \<open>
  C4. When the invocation was accepted and \<open>waitForActivation\<close>, called with a budget of
  60 seconds, returns no activation, \<open>fetchSlice\<close> throws the error whose message is
  \<open>Timed out fetching assets url for '<sliceName>'\<close>, and has made no other call.
\<close>

theorem fetchSlice_timeout:
  assumes "invoke_reply w = Inr iv" and "activation_reply w = None"
  shows "fst (fetchSlice w sliceName f) =
           Threw (Error (''Timed out fetching assets url for '' @ [CHR 0x27] @ sliceName @ [CHR 0x27]))
         \<and> (\<exists>client name. calls (snd (fetchSlice w sliceName f)) =
               [Invoke client name sliceName, WaitForActivation (activationId iv) client 60])"
  using assms by (simp add: fetchSlice_def fetchSlice_prog_def remote_defs Let_def)

theorem fetchSlice_timeout_witness:
  "invoke_reply timeout_world = Inr \<lparr>activationId = ''a1''\<rparr>
   \<and> activation_reply timeout_world = None
   \<and> fst (fetchSlice timeout_world ''myslice'' Map.empty) =
       Threw (Error (''Timed out fetching assets url for 'myslice'' @ [CHR 0x27]))"
proof -
  have h1: "invoke_reply timeout_world = Inr \<lparr>activationId = ''a1''\<rparr>"
    by (simp add: timeout_world_def good_world_def)
  have h2: "activation_reply timeout_world = None"
    by (simp add: timeout_world_def)
  show ?thesis
    using h1 h2 fetchSlice_timeout [OF h1 h2, of "''myslice''" Map.empty] by simp
qed

text \<open>
  C2. A completed activation is usable only if its response reports success and carries a
  download URL that is not empty. For an activation that is not usable (no response, no
  success, no result or no URL) \<open>fetchSlice\<close> throws the error whose message is
  \<open>Failed to fetch assets url for '<sliceName>'\<close>, leaves the files as they were and makes
  no call but the two remote ones; for a usable one it goes on to the download.
\<close>

theorem fetchSlice_unusable:
  assumes "invoke_reply w = Inr iv" and "activation_reply w = Some a"
  shows "(\<not> usable a \<longrightarrow>
            fst (fetchSlice w sliceName f) =
              Threw (Error (''Failed to fetch assets url for '' @ [CHR 0x27] @ sliceName @ [CHR 0x27]))
            \<and> files (snd (fetchSlice w sliceName f)) = f
            \<and> (\<forall>ev \<in> set (calls (snd (fetchSlice w sliceName f))). remote_call ev))
       \<and> (usable a \<longrightarrow>
            (\<exists>u. truthy u \<and> AxiosGet u \<in> set (calls (snd (fetchSlice w sliceName f)))))"
proof (intro conjI impI)
  assume n: "\<not> usable a"
  show "fst (fetchSlice w sliceName f) =
      Threw (Error (''Failed to fetch assets url for '' @ [CHR 0x27] @ sliceName @ [CHR 0x27]))"
    using assms n
    by (auto simp add: fetchSlice_def fetchSlice_prog_def remote_defs Let_def usable_def
        split: option.splits)
  show "files (snd (fetchSlice w sliceName f)) = f"
    using assms n
    by (auto simp add: fetchSlice_def fetchSlice_prog_def remote_defs Let_def usable_def
        split: option.splits)
  show "\<forall>ev \<in> set (calls (snd (fetchSlice w sliceName f))). remote_call ev"
    using assms n
    by (auto simp add: fetchSlice_def fetchSlice_prog_def remote_defs Let_def usable_def
        split: option.splits)
next
  assume "usable a"
  then obtain r res where
    r: "response a = Some r" "truthy (success r)" "result r = Some res" "truthy (url res)"
    by (auto simp: usable_def split: option.splits)
  have "AxiosGet (url res) \<in> set (calls (snd (fetchSlice w sliceName f)))"
    unfolding fetchSlice_def fetchSlice_prog_def Let_def
    apply (subst and_then_def)
    apply (simp add: actions_invoke_def assms)
    apply (subst and_then_def)
    apply (simp add: waitForActivation_def assms r)
    apply (rule and_then_keeps_calls)
     apply (auto intro!: emits_rules simp: axios_get_def call_def split: sum.split)
    done
  with r show "\<exists>u. truthy u \<and> AxiosGet u \<in> set (calls (snd (fetchSlice w sliceName f)))"
    by blast
qed

theorem fetchSlice_unusable_witness:
  "invoke_reply unusable_world = Inr \<lparr>activationId = ''a1''\<rparr>
   \<and> activation_reply unusable_world =
       Some \<lparr>response = Some \<lparr>success = JBool False, result = Some \<lparr>url = JUndefined\<rparr>\<rparr>\<rparr>
   \<and> \<not> usable \<lparr>response = Some \<lparr>success = JBool False, result = Some \<lparr>url = JUndefined\<rparr>\<rparr>\<rparr>
   \<and> fst (fetchSlice unusable_world ''myslice'' Map.empty) =
       Threw (Error (''Failed to fetch assets url for 'myslice'' @ [CHR 0x27]))
   \<and> files (snd (fetchSlice unusable_world ''myslice'' Map.empty)) = Map.empty
   \<and> invoke_reply good_world = Inr \<lparr>activationId = ''a1''\<rparr>
   \<and> activation_reply good_world = Some good_activation
   \<and> usable good_activation
   \<and> (\<exists>u. truthy u \<and> AxiosGet u \<in> set (calls (snd (fetchSlice good_world ''myslice'' Map.empty))))"
proof -
  have h1: "invoke_reply unusable_world = Inr \<lparr>activationId = ''a1''\<rparr>"
    by (simp add: unusable_world_def good_world_def)
  have h2: "activation_reply unusable_world =
       Some \<lparr>response = Some \<lparr>success = JBool False, result = Some \<lparr>url = JUndefined\<rparr>\<rparr>\<rparr>"
    by (simp add: unusable_world_def)
  have h3: "\<not> usable \<lparr>response = Some \<lparr>success = JBool False, result = Some \<lparr>url = JUndefined\<rparr>\<rparr>\<rparr>"
    by (simp add: usable_def)
  have g1: "invoke_reply good_world = Inr \<lparr>activationId = ''a1''\<rparr>"
    by (simp add: good_world_def)
  have g2: "activation_reply good_world = Some good_activation"
    by (simp add: good_world_def)
  have g3: "usable good_activation"
    by (simp add: usable_def good_activation_def)
  show ?thesis
    using h1 h2 h3 g1 g2 g3
      fetchSlice_unusable [OF h1 h2, of "''myslice''" Map.empty]
      fetchSlice_unusable [OF g1 g2, of "''myslice''" Map.empty]
    by simp
qed

text \<open>
  C6. When the activation timed out or was not usable, \<open>fetchSlice\<close> fails with an error of
  its own before any local step: the files are what they were, no call to the file system
  was made, no archive was opened and nothing was written.
\<close>

theorem fetchSlice_no_extraction_on_early_failure:
  assumes "invoke_reply w = Inr iv"
    and "activation_reply w = None \<or> (\<exists>a. activation_reply w = Some a \<and> \<not> usable a)"
  shows "(\<exists>msg. fst (fetchSlice w sliceName f) = Threw (Error msg))
       \<and> files (snd (fetchSlice w sliceName f)) = f
       \<and> (\<forall>ev \<in> set (calls (snd (fetchSlice w sliceName f))).
            \<not> fs_call ev \<and> (\<forall>b. ev \<noteq> NewZip b))
       \<and> writes (calls (snd (fetchSlice w sliceName f))) = []"
  using assms(2)
proof
  assume "activation_reply w = None"
  then show ?thesis
    by (simp add: fetchSlice_timed_out [OF assms(1)])
next
  assume "\<exists>a. activation_reply w = Some a \<and> \<not> usable a"
  then obtain a where "activation_reply w = Some a" "\<not> usable a" by blast
  then show ?thesis
    by (simp add: fetchSlice_not_usable [OF assms(1)])
qed

theorem fetchSlice_no_extraction_on_early_failure_witness:
  "invoke_reply timeout_world = Inr \<lparr>activationId = ''a1''\<rparr>
   \<and> activation_reply timeout_world = None
   \<and> files (snd (fetchSlice timeout_world ''myslice'' [[''tmp''] \<mapsto> Dir])) = [[''tmp''] \<mapsto> Dir]
   \<and> writes (calls (snd (fetchSlice timeout_world ''myslice'' [[''tmp''] \<mapsto> Dir]))) = []
   \<and> invoke_reply unusable_world = Inr \<lparr>activationId = ''a1''\<rparr>
   \<and> (\<exists>a. activation_reply unusable_world = Some a \<and> \<not> usable a)
   \<and> files (snd (fetchSlice unusable_world ''myslice'' [[''tmp''] \<mapsto> Dir])) = [[''tmp''] \<mapsto> Dir]
   \<and> writes (calls (snd (fetchSlice unusable_world ''myslice'' [[''tmp''] \<mapsto> Dir]))) = []"
proof -
  have h1: "invoke_reply timeout_world = Inr \<lparr>activationId = ''a1''\<rparr>"
    by (simp add: timeout_world_def good_world_def)
  have h2: "activation_reply timeout_world = None"
    by (simp add: timeout_world_def)
  have h3: "invoke_reply unusable_world = Inr \<lparr>activationId = ''a1''\<rparr>"
    by (simp add: unusable_world_def good_world_def)
  have h4: "\<exists>a. activation_reply unusable_world = Some a \<and> \<not> usable a"
    by (simp add: unusable_world_def usable_def)
  show ?thesis
    using h1 h2 h3 h4
      fetchSlice_no_extraction_on_early_failure
        [of timeout_world _ "''myslice''" "[[''tmp''] \<mapsto> Dir]", OF h1]
      fetchSlice_no_extraction_on_early_failure
        [of unusable_world _ "''myslice''" "[[''tmp''] \<mapsto> Dir]", OF h3]
    by simp
qed

section \<open>Deleting a slice\<close>

text \<open>
  C8. \<open>deleteSlice\<close> waits for the delete activation with a budget of 60 seconds and
  ignores what the wait returns: once the invocation was accepted it returns normally,
  also when the wait timed out. In every outcome the files are what they were and the only
  calls made are the two remote ones.
\<close>

theorem deleteSlice_best_effort:
  "files (snd (deleteSlice w project f)) = f
   \<and> (\<forall>ev \<in> set (calls (snd (deleteSlice w project f))). remote_call ev \<and> \<not> fs_call ev)
   \<and> (TEMP (proc w) \<noteq> None \<and> invoke_reply w = Inr iv \<longrightarrow>
        fst (deleteSlice w project f) = Returned ()
        \<and> (\<exists>client name arg. calls (snd (deleteSlice w project f)) =
              [Invoke client name arg, WaitForActivation (activationId iv) client 60]))"
  by (auto simp add: deleteSlice_def deleteSlice_prog_def remote_defs cacheArea_def Let_def
      split: option.splits sum.splits)

theorem deleteSlice_best_effort_witness:
  "TEMP (proc timeout_world) \<noteq> None
   \<and> invoke_reply timeout_world = Inr \<lparr>activationId = ''a1''\<rparr>
   \<and> activation_reply timeout_world = None
   \<and> fst (deleteSlice timeout_world \<lparr>filePath = ''/tmp/slices/foo''\<rparr> [[''tmp''] \<mapsto> Dir]) = Returned ()
   \<and> files (snd (deleteSlice timeout_world \<lparr>filePath = ''/tmp/slices/foo''\<rparr> [[''tmp''] \<mapsto> Dir]))
       = [[''tmp''] \<mapsto> Dir]"
proof -
  have h1: "TEMP (proc timeout_world) \<noteq> None"
    by (simp add: TEMP_def timeout_world_def good_world_def posix_def)
  have h2: "invoke_reply timeout_world = Inr \<lparr>activationId = ''a1''\<rparr>"
    by (simp add: timeout_world_def good_world_def)
  have h3: "activation_reply timeout_world = None"
    by (simp add: timeout_world_def)
  show ?thesis
    using h1 h2 h3
      deleteSlice_best_effort [of timeout_world "\<lparr>filePath = ''/tmp/slices/foo''\<rparr>"
        "[[''tmp''] \<mapsto> Dir]" "\<lparr>activationId = ''a1''\<rparr>"]
    by simp
qed

end
